theory Spec2Isabelle
  imports Complex_Main
begin

section \<open>Slicer25: a 25-slice plane with named metazones\<close>

text \<open>
  A shallow embedding of the JavaScript class \<open>Slicer25\<close> (file \<open>Slicer25.js\<close>).
  Surface dimensions, percentages and pixel bounds are integers (\<open>int\<close>); the
  coordinates handed to the two queries are arbitrary numbers (\<open>rat\<close>).

  The value \<open>dim * (pct / 100)\<close> is computed exactly. The source computes it in double
  precision and hands it to \<open>Math.round\<close>; for an integer dimension far below \<open>2^53\<close> and
  the percentages 15, 34 and 2 both give the same integer: the exact product is a multiple
  of \<open>1/100\<close>, so it is either a tie \<open>k + 1/2\<close> or at least \<open>1/100\<close> away from one; a tie
  is reproduced by the double product (for 15) or exceeded by it (for 34 and 2), and
  \<open>Math.round\<close> sends a tie upwards.
\<close>

subsection \<open>Data\<close>

text \<open>A cell's range, the object literal built by \<open>_getScreenRangeFromXYPercent\<close>.\<close>

record range =
  xstart :: int
  xstop :: int
  ystart :: int
  ystop :: int

text \<open>
  The object returned by \<open>_getMergedRange\<close>: its four fields start out as \<open>null\<close>
  (\<open>None\<close>) and hold a number once a range has been seen.
\<close>

record merged =
  m_xstart :: "int option"
  m_ystart :: "int option"
  m_xstop :: "int option"
  m_ystop :: "int option"

text \<open>
  A value stored in \<open>this.meta\<close>: either the object returned by \<open>_getMergedRange\<close>,
  or an array literal \<open>[s[k]]\<close> holding one cell.
\<close>

datatype meta_entry = Merged merged | Wrapped "range list"

datatype error = TypeError

record slicer25 =
  xsize :: int
  ysize :: int
  slices :: "range option list"
  meta :: "(string \<times> meta_entry) list"

subsection \<open>The literal table\<close>

text \<open>
  The class reads a global table \<open>lit\<close> (\<open>lit.num.zero\<close>, \<open>lit.num.one\<close>, \<open>lit.num.five\<close>,
  \<open>lit.num.onehundred\<close>, \<open>lit.x\<close>, \<open>lit.y\<close>) that no source file declares. Its entries
  are taken from the specification's description of the algorithm.
\<close>

text \<open>
  Modelled from the spec: \<open>lit.num.zero\<close>, missing from the source; the cursor starts at
  \<open>(0, 0)\<close> and \<open>xoffset\<close> is reset to \<open>0\<close>.
\<close>

definition lit_num_zero :: int where
  "lit_num_zero = 0"

text \<open>
  Modelled from the spec: \<open>lit.num.one\<close>, missing from the source; a range stops at
  \<open>offset + pixels - 1\<close> and the next one starts at \<open>stop + 1\<close>.
\<close>

definition lit_num_one :: int where
  "lit_num_one = 1"

text \<open>
  Modelled from the spec: \<open>lit.num.five\<close>, missing from the source; a cell completes a row
  when \<open>i mod 5 == 0\<close>.
\<close>

definition lit_num_five :: int where
  "lit_num_five = 5"

text \<open>
  Modelled from the spec: \<open>lit.num.onehundred\<close>, missing from the source; a percentage is
  converted by \<open>percent / 100 * dimension\<close>.
\<close>

definition lit_num_onehundred :: int where
  "lit_num_onehundred = 100"

text \<open>
  Modelled from the spec: \<open>lit.x\<close> and \<open>lit.y\<close>, missing from the source; two distinct
  tags that select the width or the height as the dimension.
\<close>

datatype axis = Lit_x | Lit_y

subsection \<open>JavaScript primitives\<close>

text \<open>\<open>Math.round\<close>: the nearest integer, a tie going towards \<open>+\<infinity>\<close>.\<close>

definition Math_round :: "rat \<Rightarrow> int" where
  "Math_round q = \<lfloor>q + 1 / 2\<rfloor>"

text \<open>\<open>ToNumber\<close> on a field that is a number or \<open>null\<close>: \<open>null\<close> converts to \<open>0\<close>.\<close>

definition to_number :: "int option \<Rightarrow> int" where
  "to_number v = (case v of None \<Rightarrow> 0 | Some n \<Rightarrow> n)"

text \<open>
  \<open>a[i] = v\<close> on an array: inside the array it overwrites, at or past the end it
  extends the array (the skipped places stay empty).
\<close>

definition js_set :: "'a option list \<Rightarrow> nat \<Rightarrow> 'a \<Rightarrow> 'a option list" where
  "js_set a i v =
     (if i < length a then a[i := Some v]
      else a @ replicate (i - length a) None @ [Some v])"

text \<open>
  Reading \<open>a[i]\<close> where the code goes on to read a field of the result. Every index the
  class reads this way holds an object (lemmas \<open>sizes_at\<close> and \<open>sliceScreen_cells\<close>
  below); index \<open>0\<close> of the 1-based arrays holds \<open>null\<close> and is never read.
\<close>

definition js_get :: "'a option list \<Rightarrow> nat \<Rightarrow> 'a" where
  "js_get a i = the (a ! i)"

text \<open>
  The property names every object literal inherits from \<open>Object.prototype\<close>: a lookup
  \<open>obj[name]\<close> with one of them yields a function (or the prototype object) rather than
  \<open>undefined\<close>.
\<close>

definition Object_prototype_props :: "string list" where
  "Object_prototype_props =
     [''constructor'', ''hasOwnProperty'', ''isPrototypeOf'', ''propertyIsEnumerable'',
      ''toLocaleString'', ''toString'', ''valueOf'', ''__proto__'',
      ''__defineGetter__'', ''__defineSetter__'', ''__lookupGetter__'', ''__lookupSetter__'']"

subsection \<open>Partitioning the surface\<close>

definition getPercentOfScreenAsPixels :: "slicer25 \<Rightarrow> int \<Rightarrow> axis \<Rightarrow> rat" where
  "getPercentOfScreenAsPixels this pct whichDim =
     (let dim = (if whichDim = Lit_x then xsize this else ysize this)
      in of_int dim * (of_int pct / of_int lit_num_onehundred))"

definition getScreenRangeFromXYPercent ::
  "slicer25 \<Rightarrow> int \<Rightarrow> int \<Rightarrow> int \<Rightarrow> int \<Rightarrow> range" where
  "getScreenRangeFromXYPercent this xpct ypct xoffset yoffset =
     (let xpx = Math_round (getPercentOfScreenAsPixels this xpct Lit_x);
          ypx = Math_round (getPercentOfScreenAsPixels this ypct Lit_y)
      in \<lparr>xstart = xoffset, xstop = xoffset + xpx - lit_num_one,
          ystart = yoffset, ystop = yoffset + ypx - lit_num_one\<rparr>)"

text \<open>The percentages \<open>p = {b:15, z:34, m:2}\<close> and the 1-based table \<open>sizes\<close> of \<open>(x, y)\<close> pairs.\<close>

definition p_b :: int where
  "p_b = 15"

definition p_z :: int where
  "p_z = 34"

definition p_m :: int where
  "p_m = 2"

definition sizes :: "(int \<times> int) option list" where
  "sizes =
     [None,
      Some (p_b, p_b), Some (p_z, p_b), Some (p_m, p_b), Some (p_z, p_b), Some (p_b, p_b),
      Some (p_b, p_z), Some (p_z, p_z), Some (p_m, p_z), Some (p_z, p_z), Some (p_b, p_z),
      Some (p_b, p_m), Some (p_z, p_m), Some (p_m, p_m), Some (p_z, p_m), Some (p_b, p_m),
      Some (p_b, p_z), Some (p_z, p_z), Some (p_m, p_z), Some (p_z, p_z), Some (p_b, p_z),
      Some (p_b, p_b), Some (p_z, p_b), Some (p_m, p_b), Some (p_z, p_b), Some (p_b, p_b)]"

text \<open>
  One turn of the loop of \<open>sliceScreen\<close> on the state \<open>(xoffset, yoffset, ret)\<close>: the
  cell is computed at the cursor, the cursor moves on from the cell as computed, and
  only then the stored cell's \<open>ystop\<close> is decremented when it equals \<open>this.ysize\<close>.
\<close>

definition sliceScreen_step ::
  "slicer25 \<Rightarrow> nat \<Rightarrow> int \<times> int \<times> range option list \<Rightarrow> int \<times> int \<times> range option list" where
  "sliceScreen_step this i st =
     (case st of (xoffset, yoffset, ret) \<Rightarrow>
        let r = getScreenRangeFromXYPercent this
                  (fst (js_get sizes i)) (snd (js_get sizes i)) xoffset yoffset;
            (xoffset', yoffset') =
               (if int i mod lit_num_five = lit_num_zero
                then (lit_num_zero, ystop r + lit_num_one)
                else (xstop r + lit_num_one, yoffset));
            r' = (if ystop r = ysize this then r\<lparr>ystop := ystop r - 1\<rparr> else r)
        in (xoffset', yoffset', js_set ret i r'))"

definition sliceScreen :: "slicer25 \<Rightarrow> range option list" where
  "sliceScreen this =
     (case fold (sliceScreen_step this) [nat lit_num_one ..< length sizes]
             (lit_num_zero, lit_num_zero, [None])
      of (xoffset, yoffset, ret) \<Rightarrow> ret)"

subsection \<open>Metazones\<close>

text \<open>
  One turn of the loop of \<open>_getMergedRange\<close> on \<open>(minX, minY, maxX, maxY)\<close>. A
  comparison with \<open>null\<close> compares with \<open>0\<close>; the test \<open>=== null\<close> then takes the first
  range whatever it is.
\<close>

definition getMergedRange_step ::
  "range \<Rightarrow> int option \<times> int option \<times> int option \<times> int option
     \<Rightarrow> int option \<times> int option \<times> int option \<times> int option" where
  "getMergedRange_step r st =
     (case st of (minX, minY, maxX, maxY) \<Rightarrow>
        let minX' = (if xstart r < to_number minX \<or> minX = None then Some (xstart r) else minX);
            maxX' = (if xstop r > to_number maxX \<or> maxX = None then Some (xstop r) else maxX);
            minY' = (if ystart r < to_number minY \<or> minY = None then Some (ystart r) else minY);
            maxY' = (if ystop r > to_number maxY \<or> maxY = None then Some (ystop r) else maxY)
        in (minX', minY', maxX', maxY'))"

definition getMergedRange :: "range list \<Rightarrow> merged" where
  "getMergedRange ranges =
     (case fold getMergedRange_step ranges (None, None, None, None)
      of (minX, minY, maxX, maxY) \<Rightarrow>
        \<lparr>m_xstart = minX, m_ystart = minY, m_xstop = maxX, m_ystop = maxY\<rparr>)"

definition buildMeta :: "slicer25 \<Rightarrow> (string \<times> meta_entry) list" where
  "buildMeta this =
     (let s = js_get (slices this) in
      [(''left'', Merged (getMergedRange
          [s 1, s 2, s 6, s 7, s 11, s 12, s 16, s 17, s 21, s 22])),
       (''right'', Merged (getMergedRange
          [s 4, s 5, s 9, s 10, s 14, s 15, s 19, s 20, s 24, s 25])),
       (''top'', Merged (getMergedRange
          [s 1, s 2, s 3, s 4, s 5, s 6, s 7, s 8, s 9, s 10])),
       (''bottom'', Merged (getMergedRange
          [s 16, s 17, s 18, s 19, s 20, s 21, s 22, s 23, s 24, s 25])),
       (''l_border'', Merged (getMergedRange [s 1, s 6, s 11, s 16, s 21])),
       (''r_border'', Merged (getMergedRange [s 5, s 10, s 15, s 20, s 25])),
       (''t_border'', Merged (getMergedRange [s 1, s 2, s 3, s 4, s 5])),
       (''b_border'', Merged (getMergedRange [s 21, s 22, s 23, s 24, s 25])),
       (''lt_corner'', Wrapped [s 1]),
       (''rt_corner'', Wrapped [s 5]),
       (''lb_corner'', Wrapped [s 21]),
       (''rb_corner'', Wrapped [s 25]),
       (''lt_zone'', Wrapped [s 7]),
       (''rt_zone'', Wrapped [s 9]),
       (''lb_zone'', Wrapped [s 17]),
       (''rb_zone'', Wrapped [s 19]),
       (''center'', Wrapped [s 13]),
       (''h_mid'', Merged (getMergedRange [s 15, s 16, s 17, s 18, s 19, s 20])),
       (''v_mid'', Merged (getMergedRange [s 3, s 8, s 13, s 18, s 23]))])"

subsection \<open>Construction\<close>

text \<open>
  \<open>init\<close> with both dimensions resolved (from the argument or from the environment's
  fallback): the fields are set in the source's order, \<open>sliceScreen\<close> reading the sizes
  and \<open>buildMeta\<close> reading the slices.
\<close>

definition init :: "int \<Rightarrow> int \<Rightarrow> slicer25" where
  "init w h =
     (let this = \<lparr>xsize = w, ysize = h, slices = [], meta = []\<rparr>;
          this = this\<lparr>slices := sliceScreen this\<rparr>;
          this = this\<lparr>meta := buildMeta this\<rparr>
      in this)"

subsection \<open>Queries\<close>

text \<open>
  The loop of \<open>whichSlice\<close> over the indices still to visit: the first index whose
  range holds the point is returned; falling off the end returns \<open>undefined\<close> (\<open>None\<close>).
\<close>

fun whichSlice_loop :: "range option list \<Rightarrow> int \<Rightarrow> int \<Rightarrow> nat list \<Rightarrow> nat option" where
  "whichSlice_loop s x y [] = None"
| "whichSlice_loop s x y (i # rest) =
     (if xstart (js_get s i) \<le> x \<and> xstop (js_get s i) \<ge> x
         \<and> ystart (js_get s i) \<le> y \<and> ystop (js_get s i) \<ge> y
      then Some i
      else whichSlice_loop s x y rest)"

definition whichSlice :: "slicer25 \<Rightarrow> rat \<Rightarrow> rat \<Rightarrow> nat option" where
  "whichSlice this xoffset yoffset =
     (let x = Math_round xoffset; y = Math_round yoffset
      in whichSlice_loop (slices this) x y [1 ..< length (slices this)])"

text \<open>
  \<open>is(metaName, x, y)\<close>. The lookup \<open>this.meta[metaName]\<close> finds an own property, else
  an inherited one, else \<open>undefined\<close>; reading \<open>r.xstart\<close> of \<open>undefined\<close> throws a
  \<open>TypeError\<close>. An array or an inherited function has no field \<open>xstart\<close>, and a
  comparison with \<open>undefined\<close> is false. A \<open>null\<close> field compares as \<open>0\<close>.
\<close>

definition is_metazone :: "slicer25 \<Rightarrow> string \<Rightarrow> rat \<Rightarrow> rat \<Rightarrow> error + bool" where
  "is_metazone this metaName x y =
     (case map_of (meta this) metaName of
        Some (Merged r) \<Rightarrow>
          Inr (x \<ge> of_int (to_number (m_xstart r)) \<and> x \<le> of_int (to_number (m_xstop r))
               \<and> y \<ge> of_int (to_number (m_ystart r)) \<and> y \<le> of_int (to_number (m_ystop r)))
      | Some (Wrapped a) \<Rightarrow> Inr False
      | None \<Rightarrow>
          (if metaName \<in> set Object_prototype_props then Inr False else Inl TypeError))"

subsection \<open>The specification's vocabulary\<close>

text \<open>
  The definitions of this subsection follow the words of the specification, not the
  code; the theorems below compare the two.

  \<open>pixels pct d\<close> is the pixel extent \<open>round(percent / 100 * dimension)\<close>.
\<close>

definition pixels :: "int \<Rightarrow> int \<Rightarrow> int" where
  "pixels pct d = Math_round (of_int pct / 100 * of_int d)"

text \<open>
  Column and row proportions follow the pattern \<open>[border, zone, mid, zone, border]\<close>
  with \<open>border = 15\<close>, \<open>zone = 34\<close>, \<open>mid = 2\<close>.
\<close>

definition proportions :: "int list" where
  "proportions = [15, 34, 2, 34, 15]"

text \<open>Row-major order: the 0-based column and row of the cell with 1-based index \<open>i\<close>.\<close>

definition col_of :: "nat \<Rightarrow> nat" where
  "col_of i = (i - 1) mod 5"

definition row_of :: "nat \<Rightarrow> nat" where
  "row_of i = (i - 1) div 5"

definition widthPercent :: "nat \<Rightarrow> int" where
  "widthPercent i = proportions ! col_of i"

definition heightPercent :: "nat \<Rightarrow> int" where
  "heightPercent i = proportions ! row_of i"

text \<open>
  The cursor when cell \<open>i\<close> is reached: \<open>xoffset\<close> restarts at \<open>0\<close> in every row and has
  advanced by the pixel widths of the cells to the left; \<open>yoffset\<close> has advanced by the
  pixel heights of the rows above.
\<close>

definition xoffset_at :: "int \<Rightarrow> nat \<Rightarrow> int" where
  "xoffset_at w i = sum_list (map (\<lambda>p. pixels p w) (take (col_of i) proportions))"

definition yoffset_at :: "int \<Rightarrow> nat \<Rightarrow> int" where
  "yoffset_at h i = sum_list (map (\<lambda>p. pixels p h) (take (row_of i) proportions))"

text \<open>The boundary correction: a \<open>ystop\<close> equal to the surface height is decremented.\<close>

definition clamp_y :: "int \<Rightarrow> int \<Rightarrow> int" where
  "clamp_y h v = (if v = h then v - 1 else v)"

text \<open>The range of cell \<open>i\<close> as the algorithm's steps 3 to 5 describe it.\<close>

definition computed_xstop :: "int \<Rightarrow> nat \<Rightarrow> int" where
  "computed_xstop w i = xoffset_at w i + pixels (widthPercent i) w - 1"

definition computed_ystop :: "int \<Rightarrow> nat \<Rightarrow> int" where
  "computed_ystop h i = yoffset_at h i + pixels (heightPercent i) h - 1"

definition expected_cell :: "int \<Rightarrow> int \<Rightarrow> nat \<Rightarrow> range" where
  "expected_cell w h i =
     \<lparr>xstart = xoffset_at w i, xstop = computed_xstop w i,
      ystart = yoffset_at h i, ystop = clamp_y h (computed_ystop h i)\<rparr>"

text \<open>Inclusive containment of a point in a range, on all four bounds.\<close>

definition inside :: "range \<Rightarrow> int \<Rightarrow> int \<Rightarrow> bool" where
  "inside r x y \<longleftrightarrow> xstart r \<le> x \<and> x \<le> xstop r \<and> ystart r \<le> y \<and> y \<le> ystop r"

text \<open>
  The bounding-box union
  \<open>merge(ranges) = {xstart: min(xstart), ystart: min(ystart), xstop: max(xstop), ystop: max(ystop)}\<close>.
\<close>

definition bounding_box :: "range list \<Rightarrow> merged" where
  "bounding_box rs =
     \<lparr>m_xstart = Some (Min (set (map xstart rs))), m_ystart = Some (Min (set (map ystart rs))),
      m_xstop = Some (Max (set (map xstop rs))), m_ystop = Some (Max (set (map ystop rs)))\<rparr>"

text \<open>The slices of the instance in the given 1-based columns, or rows, in index order.\<close>

definition in_columns :: "slicer25 \<Rightarrow> nat list \<Rightarrow> range list" where
  "in_columns this cs =
     map (js_get (slices this)) (filter (\<lambda>i. col_of i + 1 \<in> set cs) [1 ..< 26])"

definition in_rows :: "slicer25 \<Rightarrow> nat list \<Rightarrow> range list" where
  "in_rows this rs =
     map (js_get (slices this)) (filter (\<lambda>i. row_of i + 1 \<in> set rs) [1 ..< 26])"


section \<open>The partition in closed form\<close>

lemma upt_1_26:
  "[Suc 0 ..< 26] =
     [1, 2, 3, 4, 5, 6, 7, 8, 9, 10, 11, 12, 13, 14, 15, 16, 17, 18, 19, 20, 21, 22, 23, 24, 25]"
  by (simp add: upt_rec)

lemma length_sizes: "length sizes = 26"
  by (simp add: sizes_def)

lemma sizes_at:
  "js_get sizes (Suc 0) = (15, 15)" "js_get sizes 2 = (34, 15)" "js_get sizes 3 = (2, 15)"
  "js_get sizes 4 = (34, 15)" "js_get sizes 5 = (15, 15)"
  "js_get sizes 6 = (15, 34)" "js_get sizes 7 = (34, 34)" "js_get sizes 8 = (2, 34)"
  "js_get sizes 9 = (34, 34)" "js_get sizes 10 = (15, 34)"
  "js_get sizes 11 = (15, 2)" "js_get sizes 12 = (34, 2)" "js_get sizes 13 = (2, 2)"
  "js_get sizes 14 = (34, 2)" "js_get sizes 15 = (15, 2)"
  "js_get sizes 16 = (15, 34)" "js_get sizes 17 = (34, 34)" "js_get sizes 18 = (2, 34)"
  "js_get sizes 19 = (34, 34)" "js_get sizes 20 = (15, 34)"
  "js_get sizes 21 = (15, 15)" "js_get sizes 22 = (34, 15)" "js_get sizes 23 = (2, 15)"
  "js_get sizes 24 = (34, 15)" "js_get sizes 25 = (15, 15)"
  by (simp_all add: js_get_def sizes_def p_b_def p_z_def p_m_def)

lemma round_pixels_x:
  "Math_round (getPercentOfScreenAsPixels \<lparr>xsize = w, ysize = h, slices = s, meta = m\<rparr> pct Lit_x)
     = pixels pct w"
  by (simp add: getPercentOfScreenAsPixels_def pixels_def lit_num_onehundred_def mult.commute)

lemma round_pixels_y:
  "Math_round (getPercentOfScreenAsPixels \<lparr>xsize = w, ysize = h, slices = s, meta = m\<rparr> pct Lit_y)
     = pixels pct h"
  by (simp add: getPercentOfScreenAsPixels_def pixels_def lit_num_onehundred_def mult.commute)

lemma sliceScreen_step_eq:
  "sliceScreen_step \<lparr>xsize = w, ysize = h, slices = s, meta = m\<rparr> i (xo, yo, ret) =
     ((if int i mod 5 = 0 then 0 else xo + pixels (fst (js_get sizes i)) w),
      (if int i mod 5 = 0 then yo + pixels (snd (js_get sizes i)) h else yo),
      js_set ret i
        \<lparr>xstart = xo, xstop = xo + pixels (fst (js_get sizes i)) w - 1,
         ystart = yo, ystop = clamp_y h (yo + pixels (snd (js_get sizes i)) h - 1)\<rparr>)"
  by (simp add: sliceScreen_step_def getScreenRangeFromXYPercent_def round_pixels_x
        round_pixels_y Let_def lit_num_one_def lit_num_five_def lit_num_zero_def clamp_y_def)

lemma sliceScreen_eq:
  "sliceScreen \<lparr>xsize = w, ysize = h, slices = s, meta = m\<rparr> =
     None # map (\<lambda>i. Some (expected_cell w h i)) [1 ..< 26]"
  by (simp add: sliceScreen_def length_sizes lit_num_one_def lit_num_zero_def upt_1_26
        sliceScreen_step_eq sizes_at js_set_def expected_cell_def computed_xstop_def
        computed_ystop_def widthPercent_def heightPercent_def xoffset_at_def yoffset_at_def
        col_of_def row_of_def proportions_def
      del: upt_Suc split del: if_split)

lemma slices_init:
  "slices (init w h) = None # map (\<lambda>i. Some (expected_cell w h i)) [1 ..< 26]"
  by (simp add: init_def Let_def sliceScreen_eq del: upt_Suc)

lemma xsize_init: "xsize (init w h) = w"
  by (simp add: init_def Let_def)

lemma ysize_init: "ysize (init w h) = h"
  by (simp add: init_def Let_def)

lemma length_slices_init: "length (slices (init w h)) = 26"
  by (simp add: slices_init del: upt_Suc)

lemma sliceScreen_cells:
  assumes "1 \<le> i" and "i \<le> 25"
  shows "slices (init w h) ! i = Some (expected_cell w h i)"
proof -
  from assms obtain k where k: "i = Suc k" "k < 25"
    by (cases i) auto
  then show ?thesis
    by (simp add: slices_init del: upt_Suc)
qed

lemma cell_init:
  "1 \<le> i \<Longrightarrow> i \<le> 25 \<Longrightarrow> js_get (slices (init w h)) i = expected_cell w h i"
  by (simp add: js_get_def sliceScreen_cells)

lemma pixels_int: "pixels pct d = (pct * d + 50) div 100"
proof -
  have "(of_int pct / 100 * of_int d + 1 / 2 :: rat) = of_int (pct * d + 50) / of_int 100"
    by (simp add: field_simps)
  then show ?thesis
    unfolding pixels_def Math_round_def by (simp only: floor_divide_of_int_eq)
qed

lemma Math_round_of_int: "Math_round (of_int n) = n"
  unfolding Math_round_def by linarith

lemma Math_round_nearest: "\<bar>of_int (Math_round q) - q\<bar> \<le> 1 / 2"
  unfolding Math_round_def by linarith

lemma Math_round_numeral: "Math_round (numeral k) = numeral k"
  using Math_round_of_int [of "numeral k"] by simp

lemma Math_round_zero: "Math_round 0 = 0"
  using Math_round_of_int [of 0] by simp

lemma Math_round_quotient:
  "0 < b \<Longrightarrow> Math_round (of_int a / of_int b) = (2 * a + b) div (2 * b)"
proof -
  assume b: "0 < b"
  then have "(of_int a / of_int b + 1 / 2 :: rat) = of_int (2 * a + b) / of_int (2 * b)"
    by (simp add: field_simps)
  then show ?thesis
    unfolding Math_round_def by (simp only: floor_divide_of_int_eq)
qed

lemma Math_round_neg_iff: "q < 0 \<Longrightarrow> Math_round q = 0 \<longleftrightarrow> - 1 / 2 \<le> q"
  unfolding Math_round_def by linarith

lemma Math_round_neg_le: "q < 0 \<Longrightarrow> Math_round q \<le> 0"
  unfolding Math_round_def by linarith

lemma whichSlice_loop_find:
  "whichSlice_loop s x y ns = find (\<lambda>i. inside (js_get s i) x y) ns"
  by (induction ns) (auto simp: inside_def)

lemma whichSlice_init:
  "whichSlice (init w h) x y =
     find (\<lambda>i. inside (expected_cell w h i) (Math_round x) (Math_round y)) [1 ..< 26]"
proof -
  have "find (\<lambda>i. inside (js_get (slices (init w h)) i) (Math_round x) (Math_round y)) [1 ..< 26]
        = find (\<lambda>i. inside (expected_cell w h i) (Math_round x) (Math_round y)) [1 ..< 26]"
    by (rule find_cong) (auto simp: cell_init)
  then show ?thesis
    by (simp add: whichSlice_def Let_def whichSlice_loop_find length_slices_init del: upt_Suc)
qed

lemmas cell_eval = expected_cell_def computed_xstop_def computed_ystop_def widthPercent_def
  heightPercent_def xoffset_at_def yoffset_at_def col_of_def row_of_def proportions_def
  clamp_y_def pixels_int

lemma meta_init: "meta (init w h) = buildMeta (init w h)"
  by (simp add: init_def buildMeta_def Let_def)

lemma getMergedRange_step_None:
  "getMergedRange_step r (None, None, None, None) =
     (Some (xstart r), Some (ystart r), Some (xstop r), Some (ystop r))"
  by (simp add: getMergedRange_step_def)

lemma getMergedRange_step_Some:
  "getMergedRange_step r (Some a, Some b, Some c, Some d) =
     (Some (min (xstart r) a), Some (min (ystart r) b),
      Some (max (xstop r) c), Some (max (ystop r) d))"
  by (simp add: getMergedRange_step_def to_number_def min_def max_def)

lemma fold_getMergedRange_step:
  "fold getMergedRange_step rs (Some a, Some b, Some c, Some d) =
     (Some (fold min (map xstart rs) a), Some (fold min (map ystart rs) b),
      Some (fold max (map xstop rs) c), Some (fold max (map ystop rs) d))"
  by (induction rs arbitrary: a b c d) (simp_all add: getMergedRange_step_Some)

lemma getMergedRange_bounding_box:
  "rs \<noteq> [] \<Longrightarrow> getMergedRange rs = bounding_box rs"
proof (cases rs)
  case Nil
  assume "rs \<noteq> []"
  with Nil show ?thesis by simp
next
  case (Cons r rest)
  have "Min (set (map xstart (r # rest))) = fold min (map xstart rest) (xstart r)"
       "Min (set (map ystart (r # rest))) = fold min (map ystart rest) (ystart r)"
       "Max (set (map xstop (r # rest))) = fold max (map xstop rest) (xstop r)"
       "Max (set (map ystop (r # rest))) = fold max (map ystop rest) (ystop r)"
    by (simp_all only: list.map Min.set_eq_fold Max.set_eq_fold)
  then show ?thesis
    unfolding Cons getMergedRange_def bounding_box_def
    by (simp add: getMergedRange_step_None fold_getMergedRange_step)
qed

lemma cells_num:
  "js_get (slices (init w h)) (Suc 0) = expected_cell w h 1"
  "js_get (slices (init w h)) 2 = expected_cell w h 2"
  "js_get (slices (init w h)) 3 = expected_cell w h 3"
  "js_get (slices (init w h)) 4 = expected_cell w h 4"
  "js_get (slices (init w h)) 5 = expected_cell w h 5"
  "js_get (slices (init w h)) 6 = expected_cell w h 6"
  "js_get (slices (init w h)) 7 = expected_cell w h 7"
  "js_get (slices (init w h)) 8 = expected_cell w h 8"
  "js_get (slices (init w h)) 9 = expected_cell w h 9"
  "js_get (slices (init w h)) 10 = expected_cell w h 10"
  "js_get (slices (init w h)) 11 = expected_cell w h 11"
  "js_get (slices (init w h)) 12 = expected_cell w h 12"
  "js_get (slices (init w h)) 13 = expected_cell w h 13"
  "js_get (slices (init w h)) 14 = expected_cell w h 14"
  "js_get (slices (init w h)) 15 = expected_cell w h 15"
  "js_get (slices (init w h)) 16 = expected_cell w h 16"
  "js_get (slices (init w h)) 17 = expected_cell w h 17"
  "js_get (slices (init w h)) 18 = expected_cell w h 18"
  "js_get (slices (init w h)) 19 = expected_cell w h 19"
  "js_get (slices (init w h)) 20 = expected_cell w h 20"
  "js_get (slices (init w h)) 21 = expected_cell w h 21"
  "js_get (slices (init w h)) 22 = expected_cell w h 22"
  "js_get (slices (init w h)) 23 = expected_cell w h 23"
  "js_get (slices (init w h)) 24 = expected_cell w h 24"
  "js_get (slices (init w h)) 25 = expected_cell w h 25"
  by (simp_all add: cell_init)

lemma meta_init_cells:
  "meta (init w h) =
     (let s = expected_cell w h in
      [(''left'', Merged (getMergedRange
          [s 1, s 2, s 6, s 7, s 11, s 12, s 16, s 17, s 21, s 22])),
       (''right'', Merged (getMergedRange
          [s 4, s 5, s 9, s 10, s 14, s 15, s 19, s 20, s 24, s 25])),
       (''top'', Merged (getMergedRange
          [s 1, s 2, s 3, s 4, s 5, s 6, s 7, s 8, s 9, s 10])),
       (''bottom'', Merged (getMergedRange
          [s 16, s 17, s 18, s 19, s 20, s 21, s 22, s 23, s 24, s 25])),
       (''l_border'', Merged (getMergedRange [s 1, s 6, s 11, s 16, s 21])),
       (''r_border'', Merged (getMergedRange [s 5, s 10, s 15, s 20, s 25])),
       (''t_border'', Merged (getMergedRange [s 1, s 2, s 3, s 4, s 5])),
       (''b_border'', Merged (getMergedRange [s 21, s 22, s 23, s 24, s 25])),
       (''lt_corner'', Wrapped [s 1]),
       (''rt_corner'', Wrapped [s 5]),
       (''lb_corner'', Wrapped [s 21]),
       (''rb_corner'', Wrapped [s 25]),
       (''lt_zone'', Wrapped [s 7]),
       (''rt_zone'', Wrapped [s 9]),
       (''lb_zone'', Wrapped [s 17]),
       (''rb_zone'', Wrapped [s 19]),
       (''center'', Wrapped [s 13]),
       (''h_mid'', Merged (getMergedRange [s 15, s 16, s 17, s 18, s 19, s 20])),
       (''v_mid'', Merged (getMergedRange [s 3, s 8, s 13, s 18, s 23]))])"
  unfolding meta_init buildMeta_def Let_def
  by (simp add: cells_num)

section \<open>Lookups in the metazone table\<close>

lemma lookup_center:
  "map_of (meta (init w h)) ''center'' = Some (Wrapped [expected_cell w h 13])"
  by (simp add: meta_init_cells Let_def)

lemma lookup_lt_corner:
  "map_of (meta (init w h)) ''lt_corner'' = Some (Wrapped [expected_cell w h 1])"
  by (simp add: meta_init_cells Let_def)

lemma lookup_h_mid:
  "map_of (meta (init w h)) ''h_mid'' =
     Some (Merged (bounding_box (map (expected_cell w h) [15, 16, 17, 18, 19, 20])))"
  by (simp add: meta_init_cells Let_def getMergedRange_bounding_box)

lemma lookup_v_mid:
  "map_of (meta (init w h)) ''v_mid'' =
     Some (Merged (bounding_box (map (expected_cell w h) [3, 8, 13, 18, 23])))"
  by (simp add: meta_init_cells Let_def getMergedRange_bounding_box)

lemma in_rows_3:
  "in_rows (init w h) [3] = map (expected_cell w h) [11, 12, 13, 14, 15]"
  by (simp add: in_rows_def upt_1_26 row_of_def cells_num del: upt_Suc)

lemma in_columns_3:
  "in_columns (init w h) [3] = map (expected_cell w h) [3, 8, 13, 18, 23]"
  by (simp add: in_columns_def upt_1_26 col_of_def cells_num del: upt_Suc)

section \<open>Single-cell metazones\<close>

text \<open>
  Claim C1: \<open>is('center', x, y)\<close> is true iff \<open>whichSlice(x, y) == 13\<close>, likewise the
  corners with slices 1, 5, 21 and 25, the single-cell entries being stored as the slice's
  range unwrapped.

  \<open>buildMeta\<close> stores these entries as one-element arrays, \<open>ret.center = [s[13]]\<close>. An
  array has no field \<open>xstart\<close>, so every comparison in \<open>is\<close> is false. On the 1000 by 1000
  surface the point \<open>(500, 500)\<close> is in slice 13 and \<open>is('center', 500, 500)\<close> is false;
  the point \<open>(0, 0)\<close> is in slice 1 and \<open>is('lt_corner', 0, 0)\<close> is false.
\<close>

theorem single_cell_metazones_never_match:
  "whichSlice (init 1000 1000) 500 500 = Some 13
   \<and> map_of (meta (init 1000 1000)) ''center''
       = Some (Wrapped [\<lparr>xstart = 490, xstop = 509, ystart = 490, ystop = 509\<rparr>])
   \<and> is_metazone (init 1000 1000) ''center'' 500 500 = Inr False
   \<and> whichSlice (init 1000 1000) 0 0 = Some 1
   \<and> is_metazone (init 1000 1000) ''lt_corner'' 0 0 = Inr False"
  by (simp add: whichSlice_init upt_1_26 Math_round_numeral Math_round_zero inside_def
        is_metazone_def lookup_center lookup_lt_corner cell_eval del: upt_Suc)

text \<open>The same holds for each of the nine single-cell entries, on every instance.\<close>

lemma wrapped_entries_never_match:
  assumes "name \<in> set [''lt_corner'', ''rt_corner'', ''lb_corner'', ''rb_corner'',
                        ''lt_zone'', ''rt_zone'', ''lb_zone'', ''rb_zone'', ''center'']"
  shows "is_metazone (init w h) name x y = Inr False"
  using assms by (auto simp: is_metazone_def meta_init_cells Let_def)

section \<open>The mid lines\<close>

text \<open>
  Claim C2: \<open>h_mid\<close> is the bounding-box union of the row-3 slices 11 to 15 and \<open>v_mid\<close>
  that of the column-3 slices 3, 8, 13, 18, 23; on the 1000 by 1000 surface
  \<open>is('v_mid', 500, 10)\<close> is true.

  \<open>buildMeta\<close> merges \<open>[s[15], s[16], s[17], s[18], s[19], s[20]]\<close> into \<open>h_mid\<close>: the
  last slice of row 3 and all of row 4. On the 1000 by 1000 surface the stored \<open>h_mid\<close>
  reaches down to \<open>y = 849\<close>, where row 3 ends at \<open>y = 509\<close>; the point \<open>(500, 600)\<close> lies
  in slice 18 of row 4 and \<open>is('h_mid', 500, 600)\<close> is true.
\<close>

theorem h_mid_merges_row_4:
  "map_of (meta (init 1000 1000)) ''h_mid''
     = Some (Merged \<lparr>m_xstart = Some 0, m_ystart = Some 490,
                      m_xstop = Some 999, m_ystop = Some 849\<rparr>)
   \<and> bounding_box (in_rows (init 1000 1000) [3])
       = \<lparr>m_xstart = Some 0, m_ystart = Some 490, m_xstop = Some 999, m_ystop = Some 509\<rparr>
   \<and> whichSlice (init 1000 1000) 500 600 = Some 18
   \<and> is_metazone (init 1000 1000) ''h_mid'' 500 600 = Inr True"
  by (simp add: whichSlice_init upt_1_26 Math_round_numeral inside_def
        is_metazone_def lookup_h_mid in_rows_3 bounding_box_def to_number_def cell_eval
      del: upt_Suc)

text \<open>The half of the claim about \<open>v_mid\<close> holds on every instance.\<close>

lemma v_mid_is_column_3:
  "map_of (meta (init w h)) ''v_mid'' = Some (Merged (bounding_box (in_columns (init w h) [3])))"
  by (simp only: lookup_v_mid in_columns_3)

lemma v_mid_example: "is_metazone (init 1000 1000) ''v_mid'' 500 10 = Inr True"
  by (simp add: is_metazone_def lookup_v_mid bounding_box_def to_number_def cell_eval)

section \<open>Cells by index\<close>


lemmas table_eval = widthPercent_def heightPercent_def xoffset_at_def yoffset_at_def
  col_of_def row_of_def proportions_def






section \<open>The range of each cell\<close>




section \<open>The boundary correction\<close>





section \<open>The point query\<close>

lemma find_upt_Some:
  "find P [1 ..< 26] = Some i \<longleftrightarrow>
     1 \<le> i \<and> i \<le> 25 \<and> P i \<and> (\<forall>j. 1 \<le> j \<and> j < i \<longrightarrow> \<not> P j)"
proof
  assume "find P [1 ..< 26] = Some i"
  then obtain k where k: "k < 25" "P ([1 ..< 26] ! k)" "i = [1 ..< 26] ! k"
      "\<forall>j<k. \<not> P ([1 ..< 26] ! j)"
    unfolding find_Some_iff by auto
  from k(1,3) have i: "i = Suc k" by simp
  have "\<not> P j" if "1 \<le> j" "j < i" for j
  proof -
    from that i k(1) have "j - 1 < k" "[1 ..< 26] ! (j - 1) = j" by auto
    with k(4) show ?thesis by metis
  qed
  with k i show "1 \<le> i \<and> i \<le> 25 \<and> P i \<and> (\<forall>j. 1 \<le> j \<and> j < i \<longrightarrow> \<not> P j)"
    by auto
next
  assume a: "1 \<le> i \<and> i \<le> 25 \<and> P i \<and> (\<forall>j. 1 \<le> j \<and> j < i \<longrightarrow> \<not> P j)"
  then have "i - 1 < length [1 ..< 26]" "[1 ..< 26] ! (i - 1) = i" by auto
  moreover have "\<forall>j<i - 1. \<not> P ([1 ..< 26] ! j)"
    using a by auto
  ultimately show "find P [1 ..< 26] = Some i"
    unfolding find_Some_iff using a by metis
qed

lemma find_upt_None:
  "find P [1 ..< 26] = None \<longleftrightarrow> (\<forall>j. 1 \<le> j \<and> j \<le> 25 \<longrightarrow> \<not> P j)"
  unfolding find_None_iff by auto

lemma whichSlice_Some_iff:
  "whichSlice (init w h) x y = Some i \<longleftrightarrow>
     1 \<le> i \<and> i \<le> 25
     \<and> inside (js_get (slices (init w h)) i) (Math_round x) (Math_round y)
     \<and> (\<forall>j. 1 \<le> j \<and> j < i \<longrightarrow>
           \<not> inside (js_get (slices (init w h)) j) (Math_round x) (Math_round y))"
  unfolding whichSlice_init find_upt_Some
  by (auto simp: cell_init)

lemma whichSlice_None_iff:
  "whichSlice (init w h) x y = None \<longleftrightarrow>
     (\<forall>j. 1 \<le> j \<and> j \<le> 25 \<longrightarrow>
           \<not> inside (js_get (slices (init w h)) j) (Math_round x) (Math_round y))"
  unfolding whichSlice_init find_upt_None
  by (auto simp: cell_init)


text \<open>
  Claim C5: \<open>whichSlice\<close> rounds \<open>x\<close> and \<open>y\<close> to the nearest integer, scans the indices
  1 to 25 in ascending order and returns the first index whose range contains the rounded
  point, inclusively on all four bounds; when no range contains it, the result is
  \<open>undefined\<close> (\<open>None\<close>), not an exception: every index the scan reads holds a range.
\<close>

theorem whichSlice_first_match:
  "(whichSlice (init w h) x y = Some i \<longleftrightarrow>
      1 \<le> i \<and> i \<le> 25
      \<and> xstart (js_get (slices (init w h)) i) \<le> Math_round x
      \<and> Math_round x \<le> xstop (js_get (slices (init w h)) i)
      \<and> ystart (js_get (slices (init w h)) i) \<le> Math_round y
      \<and> Math_round y \<le> ystop (js_get (slices (init w h)) i)
      \<and> (\<forall>j. 1 \<le> j \<and> j < i \<longrightarrow>
            \<not> inside (js_get (slices (init w h)) j) (Math_round x) (Math_round y)))
   \<and> (whichSlice (init w h) x y = None \<longleftrightarrow>
        (\<forall>j. 1 \<le> j \<and> j \<le> 25 \<longrightarrow>
            \<not> inside (js_get (slices (init w h)) j) (Math_round x) (Math_round y)))
   \<and> (\<forall>j. 1 \<le> j \<and> j \<le> 25 \<longrightarrow> slices (init w h) ! j \<noteq> None)
   \<and> length (slices (init w h)) = 26
   \<and> \<bar>of_int (Math_round x) - x\<bar> \<le> 1 / 2
   \<and> \<bar>of_int (Math_round y) - y\<bar> \<le> 1 / 2"
proof -
  have "\<forall>j. 1 \<le> j \<and> j \<le> 25 \<longrightarrow> slices (init w h) ! j \<noteq> None"
    by (simp add: sliceScreen_cells)
  then show ?thesis
    using whichSlice_Some_iff [of w h x y i] whichSlice_None_iff [of w h x y]
      Math_round_nearest [of x] Math_round_nearest [of y] length_slices_init [of w h]
    unfolding inside_def by blast
qed

text \<open>
  The point \<open>(499.6, 500.4)\<close> on the 1000 by 1000 surface rounds to \<open>(500, 500)\<close>; slice 13
  is the first to contain it, slice 7 does not.
\<close>

theorem whichSlice_first_match_witness:
  "whichSlice (init 1000 1000) (2498 / 5) (2502 / 5) = Some 13
   \<and> Math_round (2498 / 5) = 500 \<and> Math_round (2502 / 5) = 500
   \<and> xstart (js_get (slices (init 1000 1000)) 13) \<le> 500
   \<and> 500 \<le> xstop (js_get (slices (init 1000 1000)) 13)
   \<and> \<not> inside (js_get (slices (init 1000 1000)) 7) 500 500
   \<and> slices (init 1000 1000) ! 13 \<noteq> None"
proof -
  have r: "Math_round (2498 / 5) = 500" "Math_round (2502 / 5) = 500"
    using Math_round_quotient [of 5 2498] Math_round_quotient [of 5 2502] by simp_all
  have "whichSlice (init 1000 1000) (2498 / 5) (2502 / 5) = Some 13"
    by (simp add: whichSlice_init upt_1_26 r inside_def cell_eval del: upt_Suc)
  then show ?thesis
    using whichSlice_first_match [of 1000 1000 "2498 / 5" "2502 / 5" 13] r by simp
qed

text \<open>A point left of the surface is in no slice.\<close>

lemma whichSlice_not_found_example: "whichSlice (init 1000 1000) (- 3) 5 = None"
proof -
  have "Math_round (- 3) = - 3" using Math_round_of_int [of "- 3"] by simp
  then show ?thesis
    by (simp add: whichSlice_init upt_1_26 Math_round_numeral inside_def cell_eval del: upt_Suc)
qed

section \<open>The metazone query\<close>










section \<open>Negative coordinates\<close>

lemma pixels_nonneg: "0 \<le> p \<Longrightarrow> 0 \<le> d \<Longrightarrow> 0 \<le> pixels p d"
  unfolding pixels_int by (simp add: pos_imp_zdiv_nonneg_iff)

lemma proportions_nonneg: "p \<in> set proportions \<Longrightarrow> 0 \<le> p"
  by (auto simp: proportions_def)

lemma xoffset_at_nonneg: "0 \<le> w \<Longrightarrow> 0 \<le> xoffset_at w i"
  unfolding xoffset_at_def
  by (rule sum_list_nonneg) (auto dest!: in_set_takeD intro: pixels_nonneg proportions_nonneg)

lemma yoffset_at_nonneg: "0 \<le> h \<Longrightarrow> 0 \<le> yoffset_at h i"
  unfolding yoffset_at_def
  by (rule sum_list_nonneg) (auto dest!: in_set_takeD intro: pixels_nonneg proportions_nonneg)

lemma outside_when_negative:
  assumes "0 \<le> w" and "0 \<le> h" and "u < 0 \<or> v < 0"
  shows "\<not> inside (expected_cell w h i) u v"
  using assms xoffset_at_nonneg [of w i] yoffset_at_nonneg [of h i]
  by (auto simp: inside_def expected_cell_def)

lemma pixels_15_pos: "4 \<le> d \<Longrightarrow> 1 \<le> pixels 15 d"
  unfolding pixels_int by linarith

lemma pixels_15_le: "0 \<le> d \<Longrightarrow> pixels 15 d \<le> d"
  unfolding pixels_int by linarith

lemma first_cell_holds_origin:
  assumes "4 \<le> w" and "4 \<le> h"
  shows "inside (expected_cell w h 1) 0 0"
  using pixels_15_pos [OF assms(1)] pixels_15_pos [OF assms(2)] pixels_15_le [of h] assms
  by (simp add: inside_def expected_cell_def computed_xstop_def computed_ystop_def table_eval clamp_y_def)

text \<open>
  Claim C9, as stated: on every instance with positive width and height, \<open>whichSlice(x, y)\<close>
  returns 1 for \<open>-0.5 \<le> x < 0\<close> and \<open>-0.5 \<le> y < 0\<close>.

  On the 1 by 1 surface every pixel extent rounds to \<open>0\<close>, all 25 slices are empty, and
  \<open>whichSlice(-0.25, -0.25)\<close> returns \<open>undefined\<close>.
\<close>

theorem tiny_surface_counterexample:
  "(0::int) < 1 \<and> (- 1 / 2 :: rat) \<le> - 1 / 4 \<and> (- 1 / 4 :: rat) < 0
   \<and> whichSlice (init 1 1) (- 1 / 4) (- 1 / 4) = None"
proof -
  have "Math_round (- 1 / 4) = 0"
    using Math_round_quotient [of 4 "- 1"] by simp
  then show ?thesis
    by (simp add: whichSlice_init upt_1_26 inside_def cell_eval del: upt_Suc)
qed

text \<open>
  Claim C9, amended: on every instance with width and height at least 4 (where slice 1 has a
  pixel), for negative \<open>x\<close> and \<open>y\<close>, \<open>whichSlice(x, y)\<close> returns 1 when both are at least
  \<open>-0.5\<close>, since they round to \<open>0\<close>, and \<open>undefined\<close> otherwise: negative coordinates are
  reported not found exactly when one of them rounds to an integer \<open>\<le> -1\<close>.
\<close>

theorem whichSlice_negative_coordinates:
  assumes "4 \<le> w" and "4 \<le> h" and "x < 0" and "y < 0"
  shows "whichSlice (init w h) x y = (if - 1 / 2 \<le> x \<and> - 1 / 2 \<le> y then Some 1 else None)
    \<and> (whichSlice (init w h) x y = None \<longleftrightarrow> Math_round x \<le> - 1 \<or> Math_round y \<le> - 1)"
proof (cases "- 1 / 2 \<le> x \<and> - 1 / 2 \<le> y")
  case True
  with assms have r: "Math_round x = 0" "Math_round y = 0"
    by (simp_all add: Math_round_neg_iff)
  have "inside (js_get (slices (init w h)) 1) (Math_round x) (Math_round y)"
    using first_cell_holds_origin [OF assms(1,2)] r by (simp add: cell_init)
  then have "whichSlice (init w h) x y = Some 1"
    unfolding whichSlice_Some_iff by simp
  with True r show ?thesis by simp
next
  case False
  with assms have "Math_round x \<noteq> 0 \<or> Math_round y \<noteq> 0"
    by (auto simp: Math_round_neg_iff)
  with assms have neg: "Math_round x < 0 \<or> Math_round y < 0"
    using Math_round_neg_le [of x] Math_round_neg_le [of y] by linarith
  have "whichSlice (init w h) x y = None"
    unfolding whichSlice_init find_None_iff
    using outside_when_negative [OF _ _ neg, of w h] assms(1,2) by simp
  with False neg show ?thesis by auto
qed

text \<open>The amended claim on the 4 by 4 surface, at \<open>(-0.5, -0.25)\<close> and at \<open>(-0.75, -0.25)\<close>.\<close>

theorem whichSlice_negative_coordinates_witness:
  "whichSlice (init 4 4) (- 1 / 2) (- 1 / 4) = Some 1
   \<and> whichSlice (init 4 4) (- 3 / 4) (- 1 / 4) = None
   \<and> Math_round (- 3 / 4) = - 1"
proof -
  have "Math_round (- 3 / 4) = - 1"
    using Math_round_quotient [of 4 "- 3"] by simp
  then show ?thesis
    using whichSlice_negative_coordinates [of 4 4 "- 1 / 2" "- 1 / 4"]
      whichSlice_negative_coordinates [of 4 4 "- 3 / 4" "- 1 / 4"]
    by simp
qed

section \<open>The four sides\<close>











lemma pixels_sum_upper: "0 \<le> d \<Longrightarrow> 2 * pixels 15 d + 2 * pixels 34 d + pixels 2 d \<le> d + 2"
  unfolding pixels_int by linarith














section \<open>The slices tile the surface\<close>

















text \<open>
  The margin is attained: on the 116 by 116 surface the rounded extents add up to 114, and
  the points with \<open>x = 114\<close> or \<open>y = 114\<close> are in no slice.
\<close>

lemma margin_attained:
  "whichSlice (init 116 116) 114 0 = None \<and> whichSlice (init 116 116) 0 114 = None"
  by (simp add: whichSlice_init upt_1_26 Math_round_numeral Math_round_zero inside_def cell_eval
        del: upt_Suc)

end
